theory Spec2Isabelle
  imports Main "HOL-Library.Word"
begin

section \<open>JavaScript values\<close>

text \<open>
  The error handler inspects whatever value was thrown, so its fields are dynamically
  typed. \<open>jsval\<close> is the part of the JavaScript value universe the handler can tell
  apart: the two nullish values, booleans, strings, arrays, plain data objects (own
  properties in an association list, the first binding of a key counts; a property of
  such an object is data, never a function), and the integral numbers from \<open>-2^53\<close> to
  \<open>2^53 - 1\<close>, which a double holds exactly and prints in plain decimal. Strings are
  byte lists; every pattern the handler searches for is ASCII.
\<close>

datatype jsval =
    Undefined
  | Null
  | Bool bool
  | Num "54 word"
  | Str string
  | Arr "jsval list"
  | Obj "(string \<times> jsval) list"

text \<open>
  What can be raised: the runtime's TypeError, or whatever a method of the thrown value
  itself throws when the handler calls it.
\<close>

datatype exception = TypeError | Thrown

text \<open>Truthiness, as \<open>if (v)\<close>, \<open>!v\<close>, \<open>a && b\<close> and \<open>a || b\<close> see it.\<close>

fun truthy :: "jsval \<Rightarrow> bool" where
  "truthy Undefined = False"
| "truthy Null = False"
| "truthy (Bool b) = b"
| "truthy (Num n) = (n \<noteq> 0)"
| "truthy (Str s) = (s \<noteq> [])"
| "truthy (Arr xs) = True"
| "truthy (Obj kvs) = True"

definition or_else :: "jsval \<Rightarrow> jsval \<Rightarrow> jsval" where
  \<comment> \<open>\<open>a || b\<close>\<close>
  "or_else a b = (if truthy a then a else b)"

text \<open>
  \<open>String(v)\<close>: what a template literal, a property key and \<open>new Error(v)\<close> make of a
  value. An array joins its elements with commas, nullish ones as the empty string, and
  stops at the first element that cannot be converted. A plain object answers
  \<open>[object Object]\<close> through the inherited \<open>toString\<close>; with an own property of that
  name, which is not callable, the conversion falls through to the inherited
  \<open>valueOf\<close>, gets the object back, and raises a TypeError.
\<close>

definition digit :: "nat \<Rightarrow> char" where
  "digit n = ''0123456789'' ! (n mod 10)"

function show_nat :: "nat \<Rightarrow> string" where
  "show_nat n = (if n < 10 then [digit n] else show_nat (n div 10) @ [digit n])"
  by pat_completeness auto
termination
  by (relation "measure id") auto

definition show_int :: "int \<Rightarrow> string" where
  "show_int i = (if i < 0 then CHR ''-'' # show_nat (nat (- i)) else show_nat (nat i))"

fun join :: "string \<Rightarrow> string list \<Rightarrow> string" where
  "join sep [] = []"
| "join sep [x] = x"
| "join sep (x # y # ys) = x @ sep @ join sep (y # ys)"

fun all_or_first :: "(exception + 'a) list \<Rightarrow> exception + 'a list" where
  "all_or_first [] = Inr []"
| "all_or_first (Inl x # rs) = Inl x"
| "all_or_first (Inr a # rs) =
     (case all_or_first rs of Inl x \<Rightarrow> Inl x | Inr as \<Rightarrow> Inr (a # as))"

fun toString :: "jsval \<Rightarrow> exception + string" where
  "toString Undefined = Inr ''undefined''"
| "toString Null = Inr ''null''"
| "toString (Bool b) = Inr (if b then ''true'' else ''false'')"
| "toString (Num n) = Inr (show_int (sint n))"
| "toString (Str s) = Inr s"
| "toString (Arr xs) =
     (case all_or_first
             (map (\<lambda>x. if x = Undefined \<or> x = Null then Inr [] else toString x) xs) of
        Inl x \<Rightarrow> Inl x
      | Inr parts \<Rightarrow> Inr (join '','' parts))"
| "toString (Obj kvs) =
     (case map_of kvs ''toString'' of
        None \<Rightarrow> Inr ''[object Object]''
      | Some v \<Rightarrow> Inl TypeError)"

definition convertible :: "jsval \<Rightarrow> bool" where
  "convertible v = (case toString v of Inr s \<Rightarrow> True | Inl x \<Rightarrow> False)"

text \<open>
  Reading a property: a nullish receiver raises, a plain object answers with its own
  binding, everything else has none of the properties read here.
\<close>

definition get_prop :: "jsval \<Rightarrow> string \<Rightarrow> exception + jsval" where
  "get_prop v k =
     (case v of
        Undefined \<Rightarrow> Inl TypeError
      | Null \<Rightarrow> Inl TypeError
      | Obj kvs \<Rightarrow> Inr (case map_of kvs k of Some x \<Rightarrow> x | None \<Rightarrow> Undefined)
      | _ \<Rightarrow> Inr Undefined)"

definition opt_prop :: "jsval \<Rightarrow> string \<Rightarrow> jsval" where
  \<comment> \<open>\<open>v?.k\<close>\<close>
  "opt_prop v k = (case get_prop v k of Inl _ \<Rightarrow> Undefined | Inr x \<Rightarrow> x)"

fun starts :: "string \<Rightarrow> string \<Rightarrow> bool" where
  "starts [] s = True"
| "starts (p # ps) [] = False"
| "starts (p # ps) (c # cs) = (p = c \<and> starts ps cs)"

fun contains :: "string \<Rightarrow> string \<Rightarrow> bool" where
  "contains p [] = (p = [])"
| "contains p (c # cs) = (starts p (c # cs) \<or> contains p cs)"

text \<open>
  \<open>v.startsWith(p)\<close> and \<open>v.includes(p)\<close> (here \<open>includes_js\<close>): strings have
  both, arrays have \<open>includes\<close> (membership); on any other value the call raises a
  TypeError, because the receiver is nullish or the property is not a function.
\<close>

definition startsWith :: "jsval \<Rightarrow> string \<Rightarrow> exception + bool" where
  "startsWith v p = (case v of Str s \<Rightarrow> Inr (starts p s) | _ \<Rightarrow> Inl TypeError)"

definition includes_js :: "jsval \<Rightarrow> string \<Rightarrow> exception + bool" where
  "includes_js v p =
     (case v of
        Str s \<Rightarrow> Inr (contains p s)
      | Arr xs \<Rightarrow> Inr (Str p \<in> set xs)
      | _ \<Rightarrow> Inl TypeError)"

text \<open>
  \<open>table[key]\<close> on an object literal: the key is turned into a string, which may
  raise; an own entry is found first, then what every object inherits from
  \<open>Object.prototype\<close> (a function or object without \<open>status\<close> and \<open>message\<close>), else
  \<open>undefined\<close>.
\<close>

datatype 'a property = Own 'a | Inherited | Missing

definition Object_prototype :: "string list" where
  "Object_prototype =
     [''constructor'', ''__proto__'', ''hasOwnProperty'', ''isPrototypeOf'',
      ''propertyIsEnumerable'', ''toLocaleString'', ''toString'', ''valueOf'',
      ''__defineGetter__'', ''__defineSetter__'', ''__lookupGetter__'', ''__lookupSetter__'']"

definition lookup :: "(string \<times> 'a) list \<Rightarrow> jsval \<Rightarrow> exception + 'a property" where
  "lookup table k =
     (case toString k of
        Inl x \<Rightarrow> Inl x
      | Inr key \<Rightarrow>
          (case map_of table key of
             Some v \<Rightarrow> Inr (Own v)
           | None \<Rightarrow> Inr (if key \<in> set Object_prototype then Inherited else Missing)))"

section \<open>The error handler (middleware/errorHandler.js)\<close>

text \<open>
  A thrown value as the handler reads it. An absent property is \<open>Undefined\<close>. The
  \<open>array\<close> property is the one the handler may call: it is a value that is no function
  (\<open>Undefined\<close> when absent), or a method, given by what calling it without arguments
  returns or throws (express-validator's result object returns its array of errors).
\<close>

datatype member = Value jsval | Method "exception + jsval"

record js_error =
  isOperational :: jsval
  code :: jsval
  name :: jsval
  message :: jsval
  stack :: jsval
  array :: member
  errorInfo :: jsval
  statusCode :: jsval
  details :: jsval

text \<open>
  \<open>new Error(message)\<close> stores \<open>String(message)\<close>, and raises when the message cannot
  be converted; without a message the instance reads the prototype's empty string.
  \<open>error_instance\<close> is the object once the message is a string; \<open>trace\<close> is the stack
  string the runtime captures at construction.
\<close>

definition error_instance :: "string \<Rightarrow> string \<Rightarrow> js_error" where
  "error_instance trace msg =
     \<lparr> isOperational = Undefined,
       code = Undefined,
       name = Str ''Error'',
       message = Str msg,
       stack = Str trace,
       array = Value Undefined,
       errorInfo = Undefined,
       statusCode = Undefined,
       details = Undefined \<rparr>"

definition Error :: "string \<Rightarrow> jsval \<Rightarrow> exception + js_error" where
  "Error trace msg =
     (case (if msg = Undefined then Inr [] else toString msg) of
        Inl x \<Rightarrow> Inl x
      | Inr m \<Rightarrow> Inr (error_instance trace m))"

text \<open>
  \<open>class APIError extends Error\<close>. The constructor's defaults (\<open>statusCode = 500\<close>,
  \<open>code = null\<close>, \<open>details = null\<close>) apply to \<open>undefined\<close> arguments only.
  \<open>api_error\<close> is the instance built from a message that is a string.
\<close>

definition APIError :: "string \<Rightarrow> jsval \<Rightarrow> jsval \<Rightarrow> jsval \<Rightarrow> jsval \<Rightarrow> exception + js_error" where
  "APIError trace msg status c d =
     (case Error trace msg of
        Inl x \<Rightarrow> Inl x
      | Inr this \<Rightarrow>
          Inr (this
                 \<lparr> name := Str ''APIError'',
                   statusCode := (if status = Undefined then Num 500 else status),
                   code := (if c = Undefined then Null else c),
                   details := (if d = Undefined then Null else d),
                   isOperational := Bool True \<rparr>))"

definition api_error :: "string \<Rightarrow> string \<Rightarrow> jsval \<Rightarrow> jsval \<Rightarrow> jsval \<Rightarrow> js_error" where
  "api_error trace msg status c d =
     (error_instance trace msg)
       \<lparr> name := Str ''APIError'',
         statusCode := (if status = Undefined then Num 500 else status),
         code := (if c = Undefined then Null else c),
         details := (if d = Undefined then Null else d),
         isOperational := Bool True \<rparr>"

text \<open>
  \<open>createError\<close> returns \<open>new APIError(message, statusCode, code, details)\<close>. Every call
  in the routes passes a string literal or a template literal as message, so the
  message is a string here and the constructor does not raise.
\<close>

definition createError :: "string \<Rightarrow> string \<Rightarrow> jsval \<Rightarrow> jsval \<Rightarrow> jsval \<Rightarrow> js_error" where
  "createError trace msg status c d = api_error trace msg status c d"

definition FIREBASE_ERROR_CODES :: "(string \<times> 54 word \<times> string) list" where
  "FIREBASE_ERROR_CODES =
     [(''auth/user-not-found'', 404, ''User not found''),
      (''auth/email-already-exists'', 409, ''Email already exists''),
      (''auth/invalid-email'', 400, ''Invalid email format''),
      (''auth/weak-password'', 400, ''Password is too weak''),
      (''auth/user-disabled'', 403, ''User account is disabled''),
      (''auth/too-many-requests'', 429, ''Too many requests''),
      (''auth/operation-not-allowed'', 403, ''Operation not allowed''),
      (''permission-denied'', 403, ''Permission denied''),
      (''not-found'', 404, ''Document not found''),
      (''already-exists'', 409, ''Document already exists''),
      (''failed-precondition'', 412, ''Failed precondition''),
      (''out-of-range'', 400, ''Value out of range''),
      (''unimplemented'', 501, ''Operation not implemented''),
      (''internal'', 500, ''Internal server error''),
      (''unavailable'', 503, ''Service temporarily unavailable''),
      (''deadline-exceeded'', 504, ''Request timeout''),
      (''unauthenticated'', 401, ''Authentication required'')]"

definition formatFirebaseError :: "string \<Rightarrow> js_error \<Rightarrow> exception + js_error" where
  "formatFirebaseError trace error =
     (let errorCode = or_else (code error) (opt_prop (errorInfo error) ''code'') in
      case lookup FIREBASE_ERROR_CODES errorCode of
        Inl x \<Rightarrow> Inl x
      | Inr (Own (status, msg)) \<Rightarrow>
          APIError trace (Str msg) (Num status) errorCode (message error)
      | Inr Inherited \<Rightarrow> APIError trace Undefined Undefined errorCode (message error)
      | Inr Missing \<Rightarrow>
          APIError trace (or_else (message error) (Str ''Firebase operation failed''))
            (Num 500) (or_else errorCode (Str ''firebase-error'')) (stack error))"

fun map_errors :: "jsval list \<Rightarrow> exception + jsval list" where
  "map_errors [] = Inr []"
| "map_errors (err # errs) =
     (case get_prop err ''param'' of
        Inl x \<Rightarrow> Inl x
      | Inr param \<Rightarrow>
          (case map_errors errs of
             Inl x \<Rightarrow> Inl x
           | Inr rest \<Rightarrow>
               Inr (Obj [(''field'', or_else param (opt_prop err ''path'')),
                         (''message'', opt_prop err ''msg''),
                         (''value'', opt_prop err ''value'')] # rest)))"

text \<open>
  \<open>errors.map\<close> exists on arrays only: what the \<open>array\<close> method returned must be one.
\<close>

definition formatValidationError :: "string \<Rightarrow> js_error \<Rightarrow> exception + js_error" where
  "formatValidationError trace error =
     (case array error of
        Method called \<Rightarrow>
          (case called of
             Inl x \<Rightarrow> Inl x
           | Inr (Arr errors) \<Rightarrow>
               (case map_errors errors of
                  Inl x \<Rightarrow> Inl x
                | Inr mapped \<Rightarrow>
                    APIError trace (Str ''Validation failed'') (Num 400)
                      (Str ''validation-error'') (Obj [(''errors'', Arr mapped)]))
           | Inr other \<Rightarrow> Inl TypeError)
      | Value v \<Rightarrow>
          APIError trace (or_else (message error) (Str ''Validation failed'')) (Num 400)
            (Str ''validation-error'') Undefined)"

definition has_array :: "js_error \<Rightarrow> bool" where
  \<comment> \<open>\<open>error.array\<close> as a condition: a function is truthy\<close>
  "has_array error = (case array error of Method called \<Rightarrow> True | Value v \<Rightarrow> truthy v)"

definition formatMongoError :: "string \<Rightarrow> js_error \<Rightarrow> exception + js_error" where
  "formatMongoError trace error =
     (if code error = Num 11000 then
        APIError trace (Str ''Duplicate field value'') (Num 409) (Str ''duplicate-key'') Undefined
      else if code error = Num 11001 then
        APIError trace (Str ''Duplicate key error'') (Num 409) (Str ''duplicate-key'') Undefined
      else
        APIError trace (or_else (message error) (Str ''Database operation failed'')) (Num 500)
          (Str ''database-error'') Undefined)"

definition jwtErrors :: "(string \<times> 54 word \<times> string) list" where
  "jwtErrors =
     [(''JsonWebTokenError'', 401, ''Invalid token''),
      (''TokenExpiredError'', 401, ''Token expired''),
      (''NotBeforeError'', 401, ''Token not active yet'')]"

definition formatJWTError :: "string \<Rightarrow> js_error \<Rightarrow> exception + js_error" where
  "formatJWTError trace error =
     (case lookup jwtErrors (name error) of
        Inl x \<Rightarrow> Inl x
      | Inr (Own (status, msg)) \<Rightarrow>
          APIError trace (Str msg) (Num status) (Str ''jwt-error'') Undefined
      | Inr Inherited \<Rightarrow> APIError trace Undefined Undefined (Str ''jwt-error'') Undefined
      | Inr Missing \<Rightarrow>
          APIError trace (Str ''Authentication failed'') (Num 401) (Str ''auth-error'') Undefined)"

definition multerErrors :: "(string \<times> 54 word \<times> string) list" where
  "multerErrors =
     [(''LIMIT_FILE_SIZE'', 413, ''File too large''),
      (''LIMIT_FILE_COUNT'', 413, ''Too many files''),
      (''LIMIT_FIELD_KEY'', 400, ''Field name too long''),
      (''LIMIT_FIELD_VALUE'', 400, ''Field value too long''),
      (''LIMIT_FIELD_COUNT'', 400, ''Too many fields''),
      (''LIMIT_UNEXPECTED_FILE'', 400, ''Unexpected file field'')]"

definition formatMulterError :: "string \<Rightarrow> js_error \<Rightarrow> exception + js_error" where
  "formatMulterError trace error =
     (case lookup multerErrors (code error) of
        Inl x \<Rightarrow> Inl x
      | Inr (Own (status, msg)) \<Rightarrow>
          APIError trace (Str msg) (Num status) (Str ''file-upload-error'') Undefined
      | Inr Inherited \<Rightarrow>
          APIError trace Undefined Undefined (Str ''file-upload-error'') Undefined
      | Inr Missing \<Rightarrow>
          APIError trace (Str ''File upload failed'') (Num 400) (Str ''file-upload-error'')
            Undefined)"

text \<open>
  What the handler reads from its surroundings: \<open>process.env.NODE_ENV\<close>, the clock
  (\<open>new Date().toISOString()\<close>) and the stack string captured when it constructs an
  \<open>APIError\<close> itself; the request's method and URL; whether the response's headers
  have gone out.
\<close>

record env =
  NODE_ENV :: jsval
  now :: string
  new_stack :: string

record request =
  reqMethod :: string
  originalUrl :: string

record response =
  headersSent :: bool

definition production :: "env \<Rightarrow> bool" where
  "production e = (NODE_ENV e = Str ''production'')"

text \<open>
  Lines 162 to 196 of \<open>errorHandler\<close>: the value of \<open>formattedError\<close> after the chain of
  tests, or the TypeError a test raises. \<open>a && b\<close> evaluates \<open>b\<close> only when \<open>a\<close> is
  truthy, and the chain stops at the first test that holds.
\<close>

definition guarded :: "jsval \<Rightarrow> exception + bool \<Rightarrow> exception + bool" where
  \<comment> \<open>\<open>a && b\<close> used as a condition\<close>
  "guarded a b = (if truthy a then b else Inr False)"

definition formattedError :: "env \<Rightarrow> js_error \<Rightarrow> exception + js_error" where
  "formattedError e error =
     (if truthy (isOperational error) then Inr error
      else case guarded (code error) (startsWith (code error) ''auth/'') of
        Inl x \<Rightarrow> Inl x
      | Inr True \<Rightarrow> formatFirebaseError (new_stack e) error
      | Inr False \<Rightarrow>
      if name error = Str ''FirebaseError'' \<or> truthy (code error) then
        formatFirebaseError (new_stack e) error
      else if name error = Str ''ValidationError'' \<or> has_array error then
        formatValidationError (new_stack e) error
      else if name error = Str ''MongoError'' \<or> name error = Str ''MongoServerError'' then
        formatMongoError (new_stack e) error
      else case guarded (name error) (includes_js (name error) ''JsonWebToken'') of
        Inl x \<Rightarrow> Inl x
      | Inr True \<Rightarrow> formatJWTError (new_stack e) error
      | Inr False \<Rightarrow>
      (case guarded (code error) (startsWith (code error) ''LIMIT_'') of
        Inl x \<Rightarrow> Inl x
      | Inr True \<Rightarrow> formatMulterError (new_stack e) error
      | Inr False \<Rightarrow>
      if name error = Str ''CastError'' then
        APIError (new_stack e) (Str ''Invalid ID format'') (Num 400) (Str ''invalid-id'') Undefined
      else case (if name error = Str ''SyntaxError'' then includes_js (message error) ''JSON''
                 else Inr False) of
        Inl x \<Rightarrow> Inl x
      | Inr True \<Rightarrow>
          APIError (new_stack e) (Str ''Invalid JSON format'') (Num 400) (Str ''invalid-json'')
            Undefined
      | Inr False \<Rightarrow>
          APIError (new_stack e)
            (if production e then Str ''Internal server error'' else message error)
            (Num 500) (Str ''internal-server-error'')
            (if \<not> production e then stack error else Undefined)))"

text \<open>
  Lines 222 to 245: the object handed to \<open>res.json\<close>. \<open>details\<close> and \<open>stack\<close> are
  added outside production only, and only when truthy. The log record written in between
  (lines 198 to 220) goes to the logger and takes no part in the response.
\<close>

definition response_body :: "env \<Rightarrow> js_error \<Rightarrow> js_error \<Rightarrow> request \<Rightarrow> jsval" where
  "response_body e error formatted req =
     Obj [(''error'',
       Obj ([(''message'', message formatted),
             (''code'', code formatted),
             (''statusCode'', or_else (statusCode formatted) (Num 500)),
             (''timestamp'', Str (now e)),
             (''path'', Str (originalUrl req)),
             (''method'', Str (reqMethod req))]
            @ (if \<not> production e \<and> truthy (details formatted)
               then [(''details'', details formatted)] else [])
            @ (if \<not> production e \<and> truthy (stack error)
               then [(''stack'', stack error)] else [])))]"

text \<open>
  What the middleware does with the request: hand the error on with \<open>next(error)\<close>, or
  write a status and a JSON body.
\<close>

datatype outcome = Next js_error | Sent jsval jsval

definition errorHandler :: "env \<Rightarrow> js_error \<Rightarrow> request \<Rightarrow> response \<Rightarrow> exception + outcome" where
  "errorHandler e error req res =
     (if headersSent res then Inr (Next error)
      else case formattedError e error of
        Inl x \<Rightarrow> Inl x
      | Inr formatted \<Rightarrow>
          Inr (Sent (or_else (statusCode formatted) (Num 500))
                 (response_body e error formatted req)))"

text \<open>
  The names the handler's tests and tables look for, and whether a fault's name is none
  of them: a string outside the list that does not contain \<open>JsonWebToken\<close>, or no name
  at all.
\<close>

definition recognised_names :: "string list" where
  "recognised_names =
     [''FirebaseError'', ''ValidationError'', ''MongoError'', ''MongoServerError'',
      ''JsonWebTokenError'', ''TokenExpiredError'', ''NotBeforeError'', ''CastError'',
      ''SyntaxError'']"

fun unrecognised_name :: "jsval \<Rightarrow> bool" where
  "unrecognised_name (Str n) = (n \<notin> set recognised_names \<and> \<not> contains ''JsonWebToken'' n)"
| "unrecognised_name v = (\<not> truthy v)"

text \<open>Reading the written response back: \<open>Object.keys\<close>, and a field of \<open>body.error\<close>.\<close>

definition keys :: "jsval \<Rightarrow> string list" where
  "keys v = (case v of Obj kvs \<Rightarrow> map fst kvs | _ \<Rightarrow> [])"

definition error_field :: "jsval \<Rightarrow> string \<Rightarrow> jsval" where
  "error_field body k = opt_prop (opt_prop body ''error'') k"


section \<open>Live updates (server.js, routes/firestore.js)\<close>

text \<open>
  The state of the socket server: who is in which room, and what each connection has
  been sent, oldest first. A packet is an event name with its payload.
\<close>

record packet =
  event :: string
  payload :: jsval

record io =
  rooms :: "string \<Rightarrow> string set"
  delivered :: "string \<Rightarrow> packet list"

text \<open>
  Modelled from the spec: the room registry of the socket server (\<open>socket.join\<close>,
  \<open>socket.leave\<close>, \<open>io.to(room).emit\<close>, and what the server does to a socket's rooms when
  its connection closes) belongs to the socket library, which the sources call but do
  not contain. It is taken to do what the contract of the change fan-out says of
  subscribe, unsubscribe, publish and onConnectionClosed: a room holds a set of
  connections, joining twice is joining once, leaving a room one is not in changes
  nothing, an emit reaches each connection in the room at that moment once, and a closed
  connection is removed from every room. The room a socket is given for its own id is
  left out.
\<close>

definition join_room :: "string \<Rightarrow> string \<Rightarrow> io \<Rightarrow> io" where
  \<comment> \<open>Modelled from the spec: \<open>socket.join(room)\<close>, subscribe\<close>
  "join_room socket room s = s\<lparr> rooms := (rooms s)(room := insert socket (rooms s room)) \<rparr>"

definition leave_room :: "string \<Rightarrow> string \<Rightarrow> io \<Rightarrow> io" where
  \<comment> \<open>Modelled from the spec: \<open>socket.leave(room)\<close>, unsubscribe\<close>
  "leave_room socket room s = s\<lparr> rooms := (rooms s)(room := rooms s room - {socket}) \<rparr>"

definition leave_all :: "string \<Rightarrow> io \<Rightarrow> io" where
  \<comment> \<open>Modelled from the spec: what closing a connection does to its rooms, onConnectionClosed\<close>
  "leave_all socket s = s\<lparr> rooms := (\<lambda>room. rooms s room - {socket}) \<rparr>"

definition emit_to :: "string \<Rightarrow> packet \<Rightarrow> io \<Rightarrow> io" where
  \<comment> \<open>Modelled from the spec: \<open>io.to(room).emit(event, payload)\<close>, publish\<close>
  "emit_to room p s =
     s\<lparr> delivered :=
          (\<lambda>socket. if socket \<in> rooms s room then delivered s socket @ [p]
                    else delivered s socket) \<rparr>"

definition new_server :: io where
  \<comment> \<open>Modelled from the spec: a server that has just started has no room and has sent nothing\<close>
  "new_server = \<lparr> rooms = (\<lambda>room. {}), delivered = (\<lambda>socket. []) \<rparr>"

text \<open>
  The handlers \<open>setupSocketIO\<close> registers for a connected socket. The collection name
  is whatever the client sent; the template literal makes a string of it before the
  socket joins or leaves, and raises when it cannot. The \<open>disconnect\<close> handler itself
  only logs: the socket has left its rooms when it runs.
\<close>

definition collection_room :: "string \<Rightarrow> string" where
  "collection_room collectionName = ''collection:'' @ collectionName"

definition subscribe_to_collection :: "string \<Rightarrow> jsval \<Rightarrow> io \<Rightarrow> exception + io" where
  "subscribe_to_collection socket collectionName s =
     (case toString collectionName of
        Inl x \<Rightarrow> Inl x
      | Inr collection \<Rightarrow> Inr (join_room socket (collection_room collection) s))"

definition unsubscribe_from_collection :: "string \<Rightarrow> jsval \<Rightarrow> io \<Rightarrow> exception + io" where
  "unsubscribe_from_collection socket collectionName s =
     (case toString collectionName of
        Inl x \<Rightarrow> Inl x
      | Inr collection \<Rightarrow> Inr (leave_room socket (collection_room collection) s))"

definition disconnect :: "string \<Rightarrow> io \<Rightarrow> io" where
  "disconnect socket s = leave_all socket s"

text \<open>
  What the create, update and delete routes do after the write:
  \<open>io.to(`collection:${collectionId}`).emit(ev, { collection, documentId, data })\<close>, with
  \<open>ev\<close> one of \<open>document-created\<close>, \<open>document-updated\<close>, \<open>document-deleted\<close>.
\<close>

definition change_event :: "string \<Rightarrow> string \<Rightarrow> string \<Rightarrow> jsval \<Rightarrow> packet" where
  "change_event ev collectionId documentId d =
     \<lparr> event = ev,
       payload = Obj [(''collection'', Str collectionId), (''documentId'', Str documentId),
                      (''data'', d)] \<rparr>"

definition emit_change :: "string \<Rightarrow> string \<Rightarrow> string \<Rightarrow> jsval \<Rightarrow> io \<Rightarrow> io" where
  "emit_change ev collectionId documentId d s =
     emit_to (collection_room collectionId) (change_event ev collectionId documentId d) s"

definition collection_of :: "packet \<Rightarrow> jsval" where
  "collection_of p = opt_prop (payload p) ''collection''"

definition subscribed :: "io \<Rightarrow> string \<Rightarrow> string \<Rightarrow> bool" where
  "subscribed s socket collectionId = (socket \<in> rooms s (collection_room collectionId))"

text \<open>
  A history of the server: what clients and routes did, in order. A handler that raises
  has changed nothing, and the server goes on with what comes next.
\<close>

datatype action =
    Subscribe string jsval
  | Unsubscribe string jsval
  | Disconnect string
  | Publish string string string jsval

fun act :: "action \<Rightarrow> io \<Rightarrow> io" where
  "act (Subscribe socket collectionName) s =
     (case subscribe_to_collection socket collectionName s of Inl x \<Rightarrow> s | Inr s' \<Rightarrow> s')"
| "act (Unsubscribe socket collectionName) s =
     (case unsubscribe_from_collection socket collectionName s of Inl x \<Rightarrow> s | Inr s' \<Rightarrow> s')"
| "act (Disconnect socket) s = disconnect socket s"
| "act (Publish ev collectionId documentId d) s = emit_change ev collectionId documentId d s"

fun run :: "action list \<Rightarrow> io \<Rightarrow> io" where
  "run [] s = s"
| "run (a # as) s = run as (act a s)"

text \<open>
  Whether an action is the socket subscribing (to anything, or to the collection named).
\<close>

fun subscribes :: "string \<Rightarrow> action \<Rightarrow> bool" where
  "subscribes socket (Subscribe socket' collectionName) = (socket' = socket)"
| "subscribes socket a = False"

fun subscribes_to :: "string \<Rightarrow> string \<Rightarrow> action \<Rightarrow> bool" where
  "subscribes_to socket collectionId (Subscribe socket' collectionName) =
     (socket' = socket \<and> toString collectionName = Inr collectionId)"
| "subscribes_to socket collectionId a = False"

section \<open>Request validation and routes (routes/firestore.js, config/firebase.js)\<close>

text \<open>
  \<open>validateRequest\<close>: \<open>errors\<close> is what \<open>validationResult(req).array()\<close> holds. The
  result is the status and body the middleware writes, or \<open>None\<close> when it calls
  \<open>next()\<close>.
\<close>

definition validateRequest :: "jsval list \<Rightarrow> (jsval \<times> jsval) option" where
  "validateRequest errors =
     (if errors \<noteq> [] then
        Some (Num 400, Obj [(''error'', Str ''Validation failed''), (''details'', Arr errors)])
      else None)"

text \<open>An awaited call of the backend client resolves with a value or rejects with a fault.\<close>

datatype 'a awaited = Resolved 'a | Rejected js_error

record snapshot =
  doc_exists :: bool
  doc_id :: string
  doc_data :: jsval
  createTime :: jsval
  updateTime :: jsval
  readTime :: jsval

text \<open>
  \<open>getDb\<close> throws \<open>new Error(...)\<close>, outside the handler's \<open>try\<close>, when the database
  was never initialised.
\<close>

definition getDb :: "string \<Rightarrow> bool \<Rightarrow> js_error option" where
  "getDb trace initialised =
     (if \<not> initialised then
        Some (error_instance trace ''Firestore not initialized. Call initializeFirebase() first.'')
      else None)"

text \<open>
  What a handler does with the request: it writes a status and a body itself, or its
  promise rejects with an error.
\<close>

datatype reply = Replied jsval jsval | Threw js_error


text \<open>
  The handler of \<open>POST /collections/:collectionId/documents\<close>, with the state of the
  socket server it emits to (\<open>req.app.get('io')\<close>, set before the server listens). The
  calls of the backend client it awaits, each given by its outcome (a rejection also
  stands for the call throwing): the read of an existing document, \<open>docRef.set\<close>,
  \<open>collection.add\<close> with the id of the document it made, and the read after the write.
  \<open>given_id\<close> is \<open>req.body.id\<close>, a string or absent once the validators have passed.
\<close>

record create_calls =
  existingDoc :: "snapshot awaited"
  set_document :: "unit awaited"
  add_document :: "string awaited"
  newDoc :: "snapshot awaited"

definition create_failed :: "string \<Rightarrow> string \<Rightarrow> js_error \<Rightarrow> js_error" where
  \<comment> \<open>the \<open>catch\<close> block\<close>
  "create_failed trace collectionId error =
     createError trace (''Failed to create document in collection '' @ collectionId) (Num 500)
       (Str ''firestore-create-error'') (message error)"

definition created_reply :: "string \<Rightarrow> string \<Rightarrow> create_calls \<Rightarrow> string \<Rightarrow> io \<Rightarrow> reply \<times> io" where
  \<comment> \<open>from \<open>const newDoc = await docRef.get()\<close> on, \<open>documentId\<close> being \<open>docRef.id\<close>\<close>
  "created_reply trace collectionId calls documentId s =
     (case newDoc calls of
        Rejected error \<Rightarrow> (Threw (create_failed trace collectionId error), s)
      | Resolved doc \<Rightarrow>
          (Replied (Num 201)
             (Obj [(''success'', Bool True),
                   (''data'',
                    Obj [(''id'', Str documentId), (''data'', doc_data doc),
                         (''collection'', Str collectionId)])]),
           emit_change ''document-created'' collectionId documentId (doc_data doc) s))"

definition create_document ::
  "string \<Rightarrow> bool \<Rightarrow> string \<Rightarrow> string option \<Rightarrow> create_calls \<Rightarrow> io \<Rightarrow> reply \<times> io" where
  "create_document trace initialised collectionId given_id calls s =
     (case getDb trace initialised of
        Some error \<Rightarrow> (Threw error, s)
      | None \<Rightarrow>
     (case given_id of
        Some documentId \<Rightarrow>
          if documentId \<noteq> [] then
            (case existingDoc calls of
               Rejected error \<Rightarrow> (Threw (create_failed trace collectionId error), s)
             | Resolved existing \<Rightarrow>
                 if doc_exists existing then
                   (Replied (Num 409)
                      (Obj [(''success'', Bool False),
                            (''error'',
                             Obj [(''message'', Str ''Document already exists''),
                                  (''code'', Str ''document-exists''),
                                  (''collection'', Str collectionId),
                                  (''documentId'', Str documentId)])]),
                    s)
                 else
                   (case set_document calls of
                      Rejected error \<Rightarrow> (Threw (create_failed trace collectionId error), s)
                    | Resolved done \<Rightarrow> created_reply trace collectionId calls documentId s))
          else
            (case add_document calls of
               Rejected error \<Rightarrow> (Threw (create_failed trace collectionId error), s)
             | Resolved documentId \<Rightarrow> created_reply trace collectionId calls documentId s)
      | None \<Rightarrow>
          (case add_document calls of
             Rejected error \<Rightarrow> (Threw (create_failed trace collectionId error), s)
           | Resolved documentId \<Rightarrow> created_reply trace collectionId calls documentId s)))"

text \<open>
  \<open>asyncHandler(fn)\<close>: a rejection of \<open>fn\<close>'s promise goes to \<open>next\<close>, and from there
  to \<open>errorHandler\<close>, registered after the routes, with nothing written yet.
\<close>

definition asyncHandler :: "env \<Rightarrow> request \<Rightarrow> reply \<Rightarrow> exception + outcome" where
  "asyncHandler e req r =
     (case r of
        Replied status body \<Rightarrow> Inr (Sent status body)
      | Threw error \<Rightarrow> errorHandler e error req \<lparr> headersSent = False \<rparr>)"



definition create_document_route ::
  "env \<Rightarrow> request \<Rightarrow> jsval list \<Rightarrow> bool \<Rightarrow> string \<Rightarrow> string option \<Rightarrow> create_calls \<Rightarrow> io
     \<Rightarrow> (exception + outcome) \<times> io" where
  "create_document_route e req errors initialised collectionId given_id calls s =
     (case validateRequest errors of
        Some (status, body) \<Rightarrow> (Inr (Sent status body), s)
      | None \<Rightarrow>
          (case create_document (new_stack e) initialised collectionId given_id calls s of
             (r, s') \<Rightarrow> (asyncHandler e req r, s')))"

section \<open>Reading an outcome, and sample inputs\<close>

text \<open>
  The status and the fields of \<open>body.error\<close> of a response that was written; \<open>None\<close>
  when the handler raised or handed the error on.
\<close>

fun sent_status :: "exception + outcome \<Rightarrow> jsval option" where
  "sent_status (Inr (Sent status body)) = Some status"
| "sent_status r = None"

fun sent_body :: "exception + outcome \<Rightarrow> jsval option" where
  "sent_body (Inr (Sent status body)) = Some body"
| "sent_body r = None"

fun sent_field :: "exception + outcome \<Rightarrow> string \<Rightarrow> jsval option" where
  "sent_field (Inr (Sent status body)) k = Some (error_field body k)"
| "sent_field r k = None"

definition thrown_object :: js_error where
  \<comment> \<open>\<open>throw {}\<close>\<close>
  "thrown_object =
     \<lparr> isOperational = Undefined, code = Undefined, name = Undefined, message = Undefined,
       stack = Undefined, array = Value Undefined, errorInfo = Undefined,
       statusCode = Undefined, details = Undefined \<rparr>"

definition development :: env where
  "development =
     \<lparr> NODE_ENV = Str ''development'', now = ''2024-05-01T10:00:00.000Z'',
       new_stack = ''Error: at errorHandler'' \<rparr>"

definition live :: env where
  "live =
     \<lparr> NODE_ENV = Str ''production'', now = ''2024-05-01T10:00:00.000Z'',
       new_stack = ''Error: at errorHandler'' \<rparr>"

definition a_request :: request where
  "a_request =
     \<lparr> reqMethod = ''GET'', originalUrl = ''/api/v1/firestore/collections/users/documents/u1'' \<rparr>"

definition unsent :: response where
  "unsent = \<lparr> headersSent = False \<rparr>"

definition missing_document_fault :: js_error where
  "missing_document_fault =
     thrown_object\<lparr> code := Str ''not-found'', name := Str ''FirebaseError'',
       message := Str ''No document to update'' \<rparr>"

definition unknown_user_fault :: js_error where
  "unknown_user_fault =
     thrown_object\<lparr> code := Str ''auth/user-not-found'', name := Str ''FirebaseAuthError'',
       message := Str ''There is no user record corresponding to the provided identifier.'' \<rparr>"

definition unprefixed_user_fault :: js_error where
  "unprefixed_user_fault = unknown_user_fault\<lparr> code := Str ''user-not-found'' \<rparr>"

definition data_loss_fault :: js_error where
  "data_loss_fault =
     thrown_object\<lparr> code := Str ''data-loss'', name := Str ''FirebaseError'',
       message := Str ''Unrecoverable data loss'', stack := Str ''FirebaseError: at commit'' \<rparr>"

definition range_fault :: js_error where
  "range_fault =
     thrown_object\<lparr> name := Str ''RangeError'', message := Str ''Invalid array length'',
       stack := Str ''RangeError: Invalid array length at handler'' \<rparr>"

definition custom_code_fault :: js_error where
  "custom_code_fault = range_fault\<lparr> code := Str ''E_CUSTOM'' \<rparr>"

definition numeric_code_fault :: js_error where
  "numeric_code_fault = range_fault\<lparr> code := Num 5 \<rparr>"

definition range_fault_body :: jsval where
  "range_fault_body =
     Obj [(''error'',
       Obj [(''message'', Str ''Invalid array length''),
            (''code'', Str ''internal-server-error''),
            (''statusCode'', Num 500),
            (''timestamp'', Str ''2024-05-01T10:00:00.000Z''),
            (''path'', Str ''/api/v1/firestore/collections/users/documents/u1''),
            (''method'', Str ''GET''),
            (''details'', Str ''RangeError: Invalid array length at handler''),
            (''stack'', Str ''RangeError: Invalid array length at handler'')])]"

definition teapot :: js_error where
  \<comment> \<open>\<open>createError('Short and stout', 418, 'teapot')\<close>\<close>
  "teapot = createError ''APIError: Short and stout at route'' ''Short and stout''
     (Num 418) (Str ''teapot'') Undefined"

definition posts_then_users :: "action list" where
  "posts_then_users =
     [Subscribe ''A'' (Str ''posts''), Subscribe ''B'' (Str ''users''),
      Publish ''document-created'' ''users'' ''u1'' (Obj [(''name'', Str ''Ada'')])]"

definition others_carry_on :: "action list" where
  "others_carry_on =
     [Subscribe ''B'' (Str ''messages''), Unsubscribe ''A'' (Str ''messages''),
      Publish ''document-created'' ''messages'' ''m1'' (Obj [(''text'', Str ''hi'')])]"



definition create_request :: request where
  "create_request =
     \<lparr> reqMethod = ''POST'', originalUrl = ''/api/v1/firestore/collections/users/documents'' \<rparr>"

definition stored_document :: snapshot where
  "stored_document =
     \<lparr> doc_exists = True, doc_id = ''k3J9'', doc_data = Obj [(''createdAt'', Str ''t0'')],
       createTime = Str ''t0'', updateTime = Str ''t0'', readTime = Str ''t1'' \<rparr>"

definition calls_succeed :: create_calls where
  "calls_succeed =
     \<lparr> existingDoc = Resolved stored_document, set_document = Resolved (),
       add_document = Resolved ''k3J9'', newDoc = Resolved stored_document \<rparr>"




section \<open>Facts about the error handler\<close>

lemma error_field_response_body:
  "error_field (response_body e error f req) ''message'' = message f"
  "error_field (response_body e error f req) ''code'' = code f"
  "error_field (response_body e error f req) ''statusCode'' = or_else (statusCode f) (Num 500)"
  "error_field (response_body e error f req) ''timestamp'' = Str (now e)"
  "error_field (response_body e error f req) ''path'' = Str (originalUrl req)"
  "error_field (response_body e error f req) ''method'' = Str (reqMethod req)"
  by (simp_all add: error_field_def response_body_def opt_prop_def get_prop_def)

lemma keys_response_body:
  "keys (response_body e error f req) = [''error'']"
  "keys (opt_prop (response_body e error f req) ''error'') =
     [''message'', ''code'', ''statusCode'', ''timestamp'', ''path'', ''method'']
     @ (if \<not> production e \<and> truthy (details f) then [''details''] else [])
     @ (if \<not> production e \<and> truthy (stack error) then [''stack''] else [])"
  by (simp_all add: keys_def response_body_def opt_prop_def get_prop_def)


lemma errorHandler_sent:
  "\<not> headersSent res \<Longrightarrow> formattedError e error = Inr f \<Longrightarrow>
   errorHandler e error req res =
     Inr (Sent (or_else (statusCode f) (Num 500)) (response_body e error f req))"
  by (simp add: errorHandler_def)


lemma api_error_fields:
  "isOperational (api_error t m s c d) = Bool True"
  "name (api_error t m s c d) = Str ''APIError''"
  "message (api_error t m s c d) = Str m"
  "statusCode (api_error t m s c d) = (if s = Undefined then Num 500 else s)"
  "code (api_error t m s c d) = (if c = Undefined then Null else c)"
  "details (api_error t m s c d) = (if d = Undefined then Null else d)"
  "stack (api_error t m s c d) = Str t"
  by (simp_all add: api_error_def error_instance_def)

lemma APIError_api_error:
  "APIError t msg s c d =
     (case (if msg = Undefined then Inr [] else toString msg) of
        Inl x \<Rightarrow> Inl x
      | Inr m \<Rightarrow> Inr (api_error t m s c d))"
  by (simp add: APIError_def Error_def api_error_def split: sum.splits)

lemma APIError_Str: "APIError t (Str m) s c d = Inr (api_error t m s c d)"
  by (simp add: APIError_api_error)

lemma APIError_Undefined: "APIError t Undefined s c d = Inr (api_error t [] s c d)"
  by (simp add: APIError_api_error)

lemma APIError_operational:
  "APIError t msg s c d = Inr f \<Longrightarrow> isOperational f = Bool True"
  by (auto simp add: APIError_api_error api_error_fields split: sum.splits if_splits)

lemma lookup_firebase_own:
  "map_of FIREBASE_ERROR_CODES c = Some v \<Longrightarrow>
   lookup FIREBASE_ERROR_CODES (Str c) = Inr (Own v)"
  by (simp add: lookup_def)

lemma lookup_firebase_other:
  assumes "c \<notin> fst ` set FIREBASE_ERROR_CODES"
  shows "lookup FIREBASE_ERROR_CODES (Str c) =
           Inr (if c \<in> set Object_prototype then Inherited else Missing)"
proof -
  have "map_of FIREBASE_ERROR_CODES c = None"
    using assms by (simp add: map_of_eq_None_iff)
  then show ?thesis by (simp add: lookup_def)
qed

lemma formatted_firebase_code:
  assumes "\<not> truthy (isOperational error)" and "code error = Str c" and "c \<noteq> []"
  shows "formattedError e error = formatFirebaseError (new_stack e) error"
  using assms
  by (simp add: formattedError_def guarded_def startsWith_def split: bool.splits)

lemma formatFirebaseError_own:
  assumes "code error = Str c" and "c \<noteq> []"
    and "map_of FIREBASE_ERROR_CODES c = Some (status, msg)"
  shows "formatFirebaseError t error =
           Inr (api_error t msg (Num status) (Str c) (message error))"
  using assms
  by (simp add: formatFirebaseError_def or_else_def lookup_firebase_own APIError_Str)

lemma formatted_fallback:
  assumes "\<not> truthy (isOperational error)" and "\<not> truthy (code error)"
    and "\<not> has_array error" and "unrecognised_name (name error)"
  shows "formattedError e error =
           APIError (new_stack e)
             (if production e then Str ''Internal server error'' else message error)
             (Num 500) (Str ''internal-server-error'')
             (if \<not> production e then stack error else Undefined)"
proof (cases "name error")
  case (Str n)
  with assms show ?thesis
    by (simp add: formattedError_def guarded_def includes_js_def recognised_names_def)
next
  case Undefined
  with assms show ?thesis
    by (simp add: formattedError_def guarded_def)
next
  case Null
  with assms show ?thesis
    by (simp add: formattedError_def guarded_def)
next
  case (Bool b)
  with assms show ?thesis
    by (simp add: formattedError_def guarded_def)
next
  case (Num k)
  with assms show ?thesis
    by (simp add: formattedError_def guarded_def)
next
  case (Arr xs)
  with assms show ?thesis by simp
next
  case (Obj kvs)
  with assms show ?thesis by simp
qed

lemma format_operational:
  "formatFirebaseError t error = Inr f \<Longrightarrow> isOperational f = Bool True"
  "formatMongoError t error = Inr f \<Longrightarrow> isOperational f = Bool True"
  "formatJWTError t error = Inr f \<Longrightarrow> isOperational f = Bool True"
  "formatMulterError t error = Inr f \<Longrightarrow> isOperational f = Bool True"
  "formatValidationError t error = Inr f \<Longrightarrow> isOperational f = Bool True"
  by (auto simp add: formatFirebaseError_def formatMongoError_def formatJWTError_def
      formatMulterError_def formatValidationError_def Let_def
      dest: APIError_operational
      split: property.splits prod.splits sum.splits member.splits jsval.splits if_splits)

lemma formattedError_operational:
  assumes "formattedError e error = Inr f"
  shows "truthy (isOperational f)"
proof (cases "truthy (isOperational error)")
  case True
  with assms show ?thesis by (simp add: formattedError_def)
next
  case False
  with assms have "isOperational f = Bool True"
    by (simp add: formattedError_def split: if_splits sum.splits bool.splits)
      (auto dest: format_operational APIError_operational)
  then show ?thesis by simp
qed

text \<open>What evaluating the handler at a sample fault unfolds.\<close>

lemmas run_handler =
  errorHandler_def formattedError_def guarded_def startsWith_def includes_js_def
  formatFirebaseError_def or_else_def opt_prop_def get_prop_def lookup_def
  FIREBASE_ERROR_CODES_def Object_prototype_def has_array_def production_def
  thrown_object_def unsent_def live_def development_def a_request_def
  error_field_response_body api_error_fields APIError_api_error

section \<open>The fallback of the error handler\<close>

text \<open>
  C1 (as the code has it). A fault that is not operational, has no code (absent or
  falsy), no truthy \<open>array\<close> property, and a name that is absent or a string outside
  the names the handler's tests and tables look for, is answered with status 500 and the
  code \<open>internal-server-error\<close>; the message is \<open>Internal server error\<close> in production
  and the fault's own message, as a string, otherwise (the empty string when it has
  none). The handler does not raise on it, provided that outside production the message
  can be converted to a string.
\<close>

theorem uncoded_fault_falls_back:
  assumes "\<not> truthy (isOperational error)" and "\<not> truthy (code error)"
    and "\<not> has_array error" and "unrecognised_name (name error)"
    and "production e \<or> convertible (message error)"
    and "\<not> headersSent res"
  shows "formattedError e error =
           APIError (new_stack e)
             (if production e then Str ''Internal server error'' else message error)
             (Num 500) (Str ''internal-server-error'')
             (if \<not> production e then stack error else Undefined) \<and>
         sent_status (errorHandler e error req res) = Some (Num 500) \<and>
         sent_field (errorHandler e error req res) ''statusCode'' = Some (Num 500) \<and>
         sent_field (errorHandler e error req res) ''code'' = Some (Str ''internal-server-error'') \<and>
         (\<exists>m. (if production e then Inr ''Internal server error''
               else if message error = Undefined then Inr []
               else toString (message error)) = Inr m \<and>
              sent_field (errorHandler e error req res) ''message'' = Some (Str m)) \<and>
         (\<forall>m. message error = Str m \<and> \<not> production e \<longrightarrow>
            sent_field (errorHandler e error req res) ''message'' = Some (Str m))"
proof -
  let ?msg = "if production e then Str ''Internal server error'' else message error"
  let ?details = "if \<not> production e then stack error else Undefined"
  have f: "formattedError e error =
      APIError (new_stack e) ?msg (Num 500) (Str ''internal-server-error'') ?details"
    using assms(1-4) by (rule formatted_fallback)
  have "\<exists>m. (if production e then Inr ''Internal server error''
      else if message error = Undefined then Inr [] else toString (message error)) = Inr m"
    using assms(5) by (cases "toString (message error)") (auto simp add: convertible_def)
  then obtain m where m: "(if production e then Inr ''Internal server error''
      else if message error = Undefined then Inr [] else toString (message error)) = Inr m"
    by blast
  then have a: "APIError (new_stack e) ?msg (Num 500) (Str ''internal-server-error'') ?details =
      Inr (api_error (new_stack e) m (Num 500) (Str ''internal-server-error'') ?details)"
    by (auto simp add: APIError_api_error split: if_splits)
  have "errorHandler e error req res =
      Inr (Sent (Num 500)
             (response_body e error
                (api_error (new_stack e) m (Num 500) (Str ''internal-server-error'') ?details)
                req))"
    using errorHandler_sent [OF assms(6), of e error _ req] f a
    by (simp add: api_error_fields or_else_def)
  then have sent: "sent_status (errorHandler e error req res) = Some (Num 500)"
    "sent_field (errorHandler e error req res) ''statusCode'' = Some (Num 500)"
    "sent_field (errorHandler e error req res) ''code'' = Some (Str ''internal-server-error'')"
    "sent_field (errorHandler e error req res) ''message'' = Some (Str m)"
    by (simp_all add: error_field_response_body api_error_fields or_else_def)
  have "sent_field (errorHandler e error req res) ''message'' = Some (Str m')"
    if "message error = Str m'" and "\<not> production e" for m'
    using that m sent(4) by simp
  with f m sent show ?thesis by blast
qed

theorem uncoded_fault_falls_back_witness:
  "\<not> truthy (isOperational range_fault) \<and> \<not> truthy (code range_fault) \<and>
   \<not> has_array range_fault \<and> unrecognised_name (name range_fault) \<and>
   convertible (message range_fault) \<and>
   \<not> headersSent unsent \<and>
   sent_status (errorHandler live range_fault a_request unsent) = Some (Num 500) \<and>
   sent_field (errorHandler live range_fault a_request unsent) ''code'' =
     Some (Str ''internal-server-error'') \<and>
   sent_field (errorHandler development range_fault a_request unsent) ''message'' =
     Some (Str ''Invalid array length'')"
proof -
  have h: "\<not> truthy (isOperational range_fault)" "\<not> truthy (code range_fault)"
    "\<not> has_array range_fault" "unrecognised_name (name range_fault)"
    by (simp_all add: range_fault_def thrown_object_def recognised_names_def has_array_def)
  have c: "convertible (message range_fault)"
    by (simp add: range_fault_def convertible_def)
  then have c': "production live \<or> convertible (message range_fault)"
    "production development \<or> convertible (message range_fault)"
    by simp_all
  have u: "\<not> headersSent unsent"
    by (simp add: unsent_def)
  have p: "\<not> production development"
    "message range_fault = Str ''Invalid array length''"
    by (simp_all add: production_def development_def range_fault_def)
  show ?thesis
    using h c u p uncoded_fault_falls_back [OF h c'(1) u, of a_request]
      uncoded_fault_falls_back [OF h c'(2) u, of a_request]
    by simp
qed

text \<open>
  The claim as written covers every fault without a recognised code prefix. A fault with
  the code \<open>E_CUSTOM\<close> has none and is in no table, yet any truthy code sends it to
  \<open>formatFirebaseError\<close>: the response keeps the code \<open>E_CUSTOM\<close> and, in production
  too, the fault's message.
\<close>

theorem unrecognised_code_counterexample:
  "\<not> truthy (isOperational custom_code_fault) \<and>
   startsWith (code custom_code_fault) ''auth/'' = Inr False \<and>
   startsWith (code custom_code_fault) ''LIMIT_'' = Inr False \<and>
   lookup FIREBASE_ERROR_CODES (code custom_code_fault) = Inr Missing \<and>
   lookup multerErrors (code custom_code_fault) = Inr Missing \<and>
   unrecognised_name (name custom_code_fault) \<and>
   \<not> has_array custom_code_fault \<and>
   sent_status (errorHandler live custom_code_fault a_request unsent) = Some (Num 500) \<and>
   sent_field (errorHandler live custom_code_fault a_request unsent) ''code'' =
     Some (Str ''E_CUSTOM'') \<and>
   sent_field (errorHandler live custom_code_fault a_request unsent) ''code'' \<noteq>
     Some (Str ''internal-server-error'') \<and>
   sent_field (errorHandler live custom_code_fault a_request unsent) ''message'' =
     Some (Str ''Invalid array length'')"
  by (simp add: run_handler custom_code_fault_def range_fault_def recognised_names_def
      multerErrors_def)

text \<open>
  A code that is a number, as the driver errors \<open>formatMongoError\<close> expects carry, stops
  the handler at its first test: numbers have no \<open>startsWith\<close>.
\<close>

lemma numeric_code_raises:
  "errorHandler live numeric_code_fault a_request unsent = Inl TypeError"
  by (simp add: run_handler numeric_code_fault_def range_fault_def)

text \<open>
  Outside production the fallback hands the fault's message to \<open>new APIError\<close>: a
  message that cannot be converted to a string stops the handler.
\<close>

lemma unconvertible_message_raises:
  "errorHandler development (range_fault\<lparr> message := Obj [(''toString'', Num 1)] \<rparr>)
     a_request unsent = Inl TypeError"
  by (simp add: run_handler range_fault_def recognised_names_def)

section \<open>The response written\<close>

text \<open>
  C2 (as the code has it). Whenever the handler writes a response (the headers have not
  gone out and none of its tests raises), the body is \<open>{ error: { message, code,
  statusCode, timestamp, path, method } }\<close>, with \<open>details\<close> and \<open>stack\<close> added outside
  production when truthy, and without a \<open>success\<close> field; the HTTP status is the
  \<open>statusCode\<close> written in the body, which is the normalized error's, or 500 when that
  is falsy.
\<close>

theorem response_envelope:
  assumes "\<not> headersSent res" and "formattedError e error = Inr formatted"
  shows "sent_body (errorHandler e error req res) = Some (response_body e error formatted req) \<and>
         keys (response_body e error formatted req) = [''error''] \<and>
         keys (opt_prop (response_body e error formatted req) ''error'') =
           [''message'', ''code'', ''statusCode'', ''timestamp'', ''path'', ''method'']
           @ (if \<not> production e \<and> truthy (details formatted) then [''details''] else [])
           @ (if \<not> production e \<and> truthy (stack error) then [''stack''] else []) \<and>
         sent_status (errorHandler e error req res) =
           Some (or_else (statusCode formatted) (Num 500)) \<and>
         sent_field (errorHandler e error req res) ''statusCode'' =
           sent_status (errorHandler e error req res) \<and>
         sent_field (errorHandler e error req res) ''message'' = Some (message formatted) \<and>
         sent_field (errorHandler e error req res) ''code'' = Some (code formatted)"
  using errorHandler_sent [OF assms]
  by (simp add: keys_response_body error_field_response_body)

theorem response_envelope_witness:
  "\<not> headersSent unsent \<and>
   formattedError live teapot = Inr teapot \<and>
   sent_body (errorHandler live teapot a_request unsent) =
     Some (response_body live teapot teapot a_request) \<and>
   keys (response_body live teapot teapot a_request) = [''error''] \<and>
   sent_status (errorHandler live teapot a_request unsent) = Some (Num 418) \<and>
   sent_field (errorHandler live teapot a_request unsent) ''statusCode'' = Some (Num 418)"
proof -
  have h: "\<not> headersSent unsent" "formattedError live teapot = Inr teapot"
    by (simp_all add: unsent_def formattedError_def teapot_def createError_def api_error_fields)
  have s: "statusCode teapot = Num 418"
    by (simp add: teapot_def createError_def api_error_fields)
  show ?thesis
    using h s response_envelope [OF h, of a_request] by (simp add: or_else_def)
qed

text \<open>
  The claim as written asks for \<open>{ success: false, error: { ..., details? } }\<close>. The body
  written for the sample fault in development has the one key \<open>error\<close>, no \<open>success\<close>,
  and a \<open>stack\<close> inside \<open>error\<close>.
\<close>

theorem response_shape_counterexample:
  "sent_body (errorHandler development range_fault a_request unsent) = Some range_fault_body \<and>
   keys range_fault_body = [''error''] \<and>
   opt_prop range_fault_body ''success'' = Undefined \<and>
   opt_prop range_fault_body ''success'' \<noteq> Bool False \<and>
   keys (opt_prop range_fault_body ''error'') =
     [''message'', ''code'', ''statusCode'', ''timestamp'', ''path'', ''method'', ''details'',
      ''stack'']"
  by (simp add: run_handler range_fault_def range_fault_body_def response_body_def keys_def
      recognised_names_def)

section \<open>Faults with a code\<close>

text \<open>
  C3 (as the code has it). A fault that is not operational and carries the identity
  provider's code \<open>auth/user-not-found\<close> is answered with status 404 and the message
  \<open>User not found\<close>; the code in the response is the fault's own code, prefix included.
\<close>

theorem user_not_found_fault_normalized:
  assumes "\<not> truthy (isOperational error)" and "code error = Str ''auth/user-not-found''"
    and "\<not> headersSent res"
  shows "formattedError e error =
           Inr (api_error (new_stack e) ''User not found'' (Num 404)
                  (Str ''auth/user-not-found'') (message error)) \<and>
         sent_status (errorHandler e error req res) = Some (Num 404) \<and>
         sent_field (errorHandler e error req res) ''statusCode'' = Some (Num 404) \<and>
         sent_field (errorHandler e error req res) ''code'' = Some (Str ''auth/user-not-found'') \<and>
         sent_field (errorHandler e error req res) ''message'' = Some (Str ''User not found'')"
proof -
  let ?f = "api_error (new_stack e) ''User not found'' (Num 404)
              (Str ''auth/user-not-found'') (message error)"
  have "map_of FIREBASE_ERROR_CODES ''auth/user-not-found'' = Some (404, ''User not found'')"
    by (simp add: FIREBASE_ERROR_CODES_def)
  then have "formatFirebaseError (new_stack e) error = Inr ?f"
    using assms(2) by (simp add: formatFirebaseError_own)
  then have f: "formattedError e error = Inr ?f"
    using assms(1,2) by (simp add: formatted_firebase_code)
  have "errorHandler e error req res = Inr (Sent (Num 404) (response_body e error ?f req))"
    using errorHandler_sent [OF assms(3) f] by (simp add: api_error_fields or_else_def)
  then show ?thesis
    using f by (simp add: error_field_response_body api_error_fields or_else_def)
qed

theorem user_not_found_fault_normalized_witness:
  "\<not> truthy (isOperational unknown_user_fault) \<and>
   code unknown_user_fault = Str ''auth/user-not-found'' \<and>
   \<not> headersSent unsent \<and>
   sent_status (errorHandler development unknown_user_fault a_request unsent) = Some (Num 404) \<and>
   sent_field (errorHandler development unknown_user_fault a_request unsent) ''code'' =
     Some (Str ''auth/user-not-found'')"
proof -
  have h: "\<not> truthy (isOperational unknown_user_fault)"
    "code unknown_user_fault = Str ''auth/user-not-found''" "\<not> headersSent unsent"
    by (simp_all add: unknown_user_fault_def thrown_object_def unsent_def)
  show ?thesis
    using h user_not_found_fault_normalized [OF h, of development a_request] by simp
qed

text \<open>
  The claim as written asks for the code \<open>user-not-found\<close>. The fault the identity
  provider raises gets 404 with the code \<open>auth/user-not-found\<close>; a fault whose code is
  the bare \<open>user-not-found\<close> is in no table and gets 500.
\<close>

theorem user_not_found_code_counterexample:
  "sent_status (errorHandler development unknown_user_fault a_request unsent) = Some (Num 404) \<and>
   sent_field (errorHandler development unknown_user_fault a_request unsent) ''code'' =
     Some (Str ''auth/user-not-found'') \<and>
   sent_field (errorHandler development unknown_user_fault a_request unsent) ''code'' \<noteq>
     Some (Str ''user-not-found'') \<and>
   sent_field (errorHandler development unprefixed_user_fault a_request unsent) ''code'' =
     Some (Str ''user-not-found'') \<and>
   sent_status (errorHandler development unprefixed_user_fault a_request unsent) = Some (Num 500) \<and>
   sent_status (errorHandler development unprefixed_user_fault a_request unsent) \<noteq> Some (Num 404)"
  by (simp add: run_handler unknown_user_fault_def unprefixed_user_fault_def)

text \<open>
  C4 (as the code has it). A fault that is not operational and carries a non-empty string
  code that is no key of \<open>FIREBASE_ERROR_CODES\<close> and does not start with \<open>LIMIT_\<close> is
  answered with status 500, and the code in the response is the fault's own code. The
  handler does not raise on it, provided that the fault's message can be converted to a
  string.
\<close>

theorem unlisted_code_normalized:
  assumes "\<not> truthy (isOperational error)" and "code error = Str c" and "c \<noteq> []"
    and "c \<notin> fst ` set FIREBASE_ERROR_CODES" and "\<not> starts ''LIMIT_'' c"
    and "convertible (message error)" and "\<not> headersSent res"
  shows "formattedError e error =
           (if c \<in> set Object_prototype
            then Inr (api_error (new_stack e) [] (Num 500) (Str c) (message error))
            else APIError (new_stack e)
                   (or_else (message error) (Str ''Firebase operation failed''))
                   (Num 500) (Str c) (stack error)) \<and>
         (\<exists>formatted. formattedError e error = Inr formatted) \<and>
         sent_status (errorHandler e error req res) = Some (Num 500) \<and>
         sent_field (errorHandler e error req res) ''statusCode'' = Some (Num 500) \<and>
         sent_field (errorHandler e error req res) ''code'' = Some (Str c)"
proof -
  let ?default = "APIError (new_stack e)
      (or_else (message error) (Str ''Firebase operation failed''))
      (Num 500) (Str c) (stack error)"
  have ff: "formatFirebaseError (new_stack e) error =
      (if c \<in> set Object_prototype
       then Inr (api_error (new_stack e) [] (Num 500) (Str c) (message error))
       else ?default)"
    using assms(2,3) lookup_firebase_other [OF assms(4)]
    by (simp add: formatFirebaseError_def or_else_def APIError_Undefined api_error_def)
  then have f: "formattedError e error =
      (if c \<in> set Object_prototype
       then Inr (api_error (new_stack e) [] (Num 500) (Str c) (message error))
       else ?default)"
    using assms(1,2,3) formatted_firebase_code [of error c e] by simp
  obtain m where m: "toString (message error) = Inr m"
    using assms(6) by (cases "toString (message error)") (simp_all add: convertible_def)
  have "\<exists>m'. ?default = Inr (api_error (new_stack e) m' (Num 500) (Str c) (stack error))"
    using m by (cases "message error") (auto simp add: APIError_api_error or_else_def)
  then obtain m' where d: "?default =
      Inr (api_error (new_stack e) m' (Num 500) (Str c) (stack error))"
    by blast
  define formatted where "formatted =
      (if c \<in> set Object_prototype
       then api_error (new_stack e) [] (Num 500) (Str c) (message error)
       else api_error (new_stack e) m' (Num 500) (Str c) (stack error))"
  have g: "formattedError e error = Inr formatted"
    using f d by (simp add: formatted_def)
  have s: "statusCode formatted = Num 500" and c: "code formatted = Str c"
    by (simp_all add: formatted_def api_error_fields)
  have "errorHandler e error req res = Inr (Sent (Num 500) (response_body e error formatted req))"
    using errorHandler_sent [OF assms(7) g] s by (simp add: or_else_def)
  then have "sent_status (errorHandler e error req res) = Some (Num 500)"
    "sent_field (errorHandler e error req res) ''statusCode'' = Some (Num 500)"
    "sent_field (errorHandler e error req res) ''code'' = Some (Str c)"
    using s c by (simp_all add: error_field_response_body or_else_def)
  with f g show ?thesis by blast
qed

theorem unlisted_code_normalized_witness:
  "\<not> truthy (isOperational data_loss_fault) \<and>
   code data_loss_fault = Str ''data-loss'' \<and>
   ''data-loss'' \<noteq> [] \<and>
   ''data-loss'' \<notin> fst ` set FIREBASE_ERROR_CODES \<and>
   \<not> starts ''LIMIT_'' ''data-loss'' \<and>
   convertible (message data_loss_fault) \<and>
   \<not> headersSent unsent \<and>
   sent_status (errorHandler live data_loss_fault a_request unsent) = Some (Num 500) \<and>
   sent_field (errorHandler live data_loss_fault a_request unsent) ''code'' =
     Some (Str ''data-loss'')"
proof -
  have h: "\<not> truthy (isOperational data_loss_fault)"
    "code data_loss_fault = Str ''data-loss''" "''data-loss'' \<noteq> []"
    "''data-loss'' \<notin> fst ` set FIREBASE_ERROR_CODES" "\<not> starts ''LIMIT_'' ''data-loss''"
    "convertible (message data_loss_fault)" "\<not> headersSent unsent"
    by (simp_all add: data_loss_fault_def thrown_object_def unsent_def FIREBASE_ERROR_CODES_def
        convertible_def)
  show ?thesis
    using h unlisted_code_normalized [OF h, of live a_request] by simp
qed

text \<open>
  The claim as written asks for the code \<open>internal\<close>; a document-store fault with the
  unlisted code \<open>data-loss\<close> keeps its code, and its message.
\<close>

theorem unlisted_code_counterexample:
  "sent_status (errorHandler live data_loss_fault a_request unsent) = Some (Num 500) \<and>
   sent_field (errorHandler live data_loss_fault a_request unsent) ''code'' =
     Some (Str ''data-loss'') \<and>
   sent_field (errorHandler live data_loss_fault a_request unsent) ''code'' \<noteq>
     Some (Str ''internal'') \<and>
   sent_field (errorHandler live data_loss_fault a_request unsent) ''message'' =
     Some (Str ''Unrecoverable data loss'')"
  by (simp add: run_handler data_loss_fault_def)

text \<open>
  C5 (as the code has it). A fault that is not operational and carries the code
  \<open>not-found\<close> is answered with status 404 and the message \<open>Document not found\<close>; the
  code in the response is the fault's own code, \<open>not-found\<close>.
\<close>

theorem not_found_fault_normalized:
  assumes "\<not> truthy (isOperational error)" and "code error = Str ''not-found''"
    and "\<not> headersSent res"
  shows "formattedError e error =
           Inr (api_error (new_stack e) ''Document not found'' (Num 404) (Str ''not-found'')
                  (message error)) \<and>
         sent_status (errorHandler e error req res) = Some (Num 404) \<and>
         sent_field (errorHandler e error req res) ''statusCode'' = Some (Num 404) \<and>
         sent_field (errorHandler e error req res) ''code'' = Some (Str ''not-found'') \<and>
         sent_field (errorHandler e error req res) ''message'' = Some (Str ''Document not found'')"
proof -
  let ?f = "api_error (new_stack e) ''Document not found'' (Num 404) (Str ''not-found'')
              (message error)"
  have "map_of FIREBASE_ERROR_CODES ''not-found'' = Some (404, ''Document not found'')"
    by (simp add: FIREBASE_ERROR_CODES_def)
  then have "formatFirebaseError (new_stack e) error = Inr ?f"
    using assms(2) by (simp add: formatFirebaseError_own)
  then have f: "formattedError e error = Inr ?f"
    using assms(1,2) by (simp add: formatted_firebase_code)
  have "errorHandler e error req res = Inr (Sent (Num 404) (response_body e error ?f req))"
    using errorHandler_sent [OF assms(3) f] by (simp add: api_error_fields or_else_def)
  then show ?thesis
    using f by (simp add: error_field_response_body api_error_fields or_else_def)
qed

theorem not_found_fault_normalized_witness:
  "\<not> truthy (isOperational missing_document_fault) \<and>
   code missing_document_fault = Str ''not-found'' \<and>
   \<not> headersSent unsent \<and>
   sent_status (errorHandler live missing_document_fault a_request unsent) = Some (Num 404) \<and>
   sent_field (errorHandler live missing_document_fault a_request unsent) ''code'' =
     Some (Str ''not-found'')"
proof -
  have h: "\<not> truthy (isOperational missing_document_fault)"
    "code missing_document_fault = Str ''not-found''" "\<not> headersSent unsent"
    by (simp_all add: missing_document_fault_def thrown_object_def unsent_def)
  show ?thesis
    using h not_found_fault_normalized [OF h, of live a_request] by simp
qed

text \<open>
  The claim as written asks for the code \<open>document-not-found\<close>; at the sample fault the
  response carries \<open>not-found\<close>.
\<close>

theorem not_found_code_counterexample:
  "sent_status (errorHandler live missing_document_fault a_request unsent) = Some (Num 404) \<and>
   sent_field (errorHandler live missing_document_fault a_request unsent) ''message'' =
     Some (Str ''Document not found'') \<and>
   sent_field (errorHandler live missing_document_fault a_request unsent) ''code'' =
     Some (Str ''not-found'') \<and>
   sent_field (errorHandler live missing_document_fault a_request unsent) ''code'' \<noteq>
     Some (Str ''document-not-found'')"
  by (simp add: run_handler missing_document_fault_def)

section \<open>Operational errors\<close>

text \<open>
  C10. An error marked operational is not re-formatted: the response carries its
  statusCode, code and message unchanged. The statusCode is truthy for every
  \<open>APIError\<close>: the constructor and \<open>createError\<close> are only given a status from 400 on
  or none, and none becomes 500. Whatever the chain of tests returns is operational, so
  formatting it again returns it as it is.
\<close>

theorem operational_error_passes_through:
  assumes "truthy (isOperational error)" and "truthy (statusCode error)"
    and "\<not> headersSent res"
  shows "formattedError e error = Inr error \<and>
         sent_field (errorHandler e error req res) ''message'' = Some (message error) \<and>
         sent_field (errorHandler e error req res) ''code'' = Some (code error) \<and>
         sent_field (errorHandler e error req res) ''statusCode'' = Some (statusCode error) \<and>
         sent_status (errorHandler e error req res) = Some (statusCode error) \<and>
         (\<forall>other g. formattedError e other = Inr g \<longrightarrow> formattedError e g = Inr g) \<and>
         (\<forall>trace msg status c d built.
            APIError trace msg status c d = Inr built \<and> (status = Undefined \<or> truthy status) \<longrightarrow>
            truthy (isOperational built) \<and> truthy (statusCode built))"
proof -
  have f: "formattedError e error = Inr error"
    using assms(1) by (simp add: formattedError_def)
  have idem: "formattedError e g = Inr g" if "formattedError e other = Inr g" for other g
  proof -
    have "truthy (isOperational g)"
      using that by (rule formattedError_operational)
    then show ?thesis by (simp add: formattedError_def)
  qed
  have built: "truthy (isOperational built) \<and> truthy (statusCode built)"
    if "APIError trace msg status c d = Inr built" and "status = Undefined \<or> truthy status"
    for trace msg status c d built
    using that by (auto simp add: APIError_api_error api_error_fields split: sum.splits if_splits)
  have "sent_field (errorHandler e error req res) ''message'' = Some (message error)"
    "sent_field (errorHandler e error req res) ''code'' = Some (code error)"
    "sent_field (errorHandler e error req res) ''statusCode'' = Some (statusCode error)"
    "sent_status (errorHandler e error req res) = Some (statusCode error)"
    using assms(2) errorHandler_sent [OF assms(3) f, of req]
    by (simp_all add: error_field_response_body or_else_def)
  with f idem built show ?thesis by blast
qed

theorem operational_error_passes_through_witness:
  "truthy (isOperational teapot) \<and> truthy (statusCode teapot) \<and> \<not> headersSent unsent \<and>
   formattedError development teapot = Inr teapot \<and>
   sent_field (errorHandler development teapot a_request unsent) ''message'' =
     Some (Str ''Short and stout'') \<and>
   sent_field (errorHandler development teapot a_request unsent) ''code'' =
     Some (Str ''teapot'') \<and>
   sent_field (errorHandler development teapot a_request unsent) ''statusCode'' =
     Some (Num 418) \<and>
   sent_status (errorHandler development teapot a_request unsent) = Some (Num 418)"
proof -
  have h: "truthy (isOperational teapot)" "truthy (statusCode teapot)" "\<not> headersSent unsent"
    by (simp_all add: teapot_def createError_def api_error_fields unsent_def)
  have t: "message teapot = Str ''Short and stout''" "code teapot = Str ''teapot''"
    "statusCode teapot = Num 418"
    by (simp_all add: teapot_def createError_def api_error_fields)
  show ?thesis
    using h t operational_error_passes_through [OF h, of development a_request] by simp
qed

section \<open>Live updates: who is sent what\<close>

lemma collection_room_inject [simp]:
  "collection_room a = collection_room b \<longleftrightarrow> a = b"
  by (simp add: collection_room_def)

text \<open>
  A subscribe or unsubscribe is read through what it does to the rooms and to the
  deliveries, not through the handler's text.
\<close>

declare act.simps(1,2) [simp del]

lemma rooms_simps [simp]:
  "rooms (act (Subscribe c v) s) =
     (case toString v of
        Inl x \<Rightarrow> rooms s
      | Inr t \<Rightarrow> (rooms s)(collection_room t := insert c (rooms s (collection_room t))))"
  "rooms (act (Unsubscribe c v) s) =
     (case toString v of
        Inl x \<Rightarrow> rooms s
      | Inr t \<Rightarrow> (rooms s)(collection_room t := rooms s (collection_room t) - {c}))"
  "rooms (disconnect c s) = (\<lambda>room. rooms s room - {c})"
  "rooms (emit_change ev t d x s) = rooms s"
  by (simp_all add: act.simps subscribe_to_collection_def unsubscribe_from_collection_def
      disconnect_def emit_change_def join_room_def leave_room_def leave_all_def emit_to_def
      split: sum.splits)

lemma delivered_simps [simp]:
  "delivered (act (Subscribe c v) s) = delivered s"
  "delivered (act (Unsubscribe c v) s) = delivered s"
  "delivered (disconnect c s) = delivered s"
  "delivered (emit_change ev t d x s) c =
     (if subscribed s c t then delivered s c @ [change_event ev t d x] else delivered s c)"
  by (simp_all add: act.simps subscribe_to_collection_def unsubscribe_from_collection_def
      disconnect_def emit_change_def join_room_def leave_room_def leave_all_def emit_to_def
      subscribed_def split: sum.splits)

lemma collection_of_change_event [simp]:
  "collection_of (change_event ev t d x) = Str t"
  by (simp add: collection_of_def change_event_def opt_prop_def get_prop_def)

lemma act_keeps_isolated:
  assumes "\<not> subscribes_to c t a" and "\<not> subscribed s c t"
    and "list_all (\<lambda>p. collection_of p \<noteq> Str t) (delivered s c)"
  shows "\<not> subscribed (act a s) c t \<and>
         list_all (\<lambda>p. collection_of p \<noteq> Str t) (delivered (act a s) c)"
proof (cases a)
  case (Subscribe c' v)
  with assms show ?thesis
    by (cases "toString v") (auto simp add: subscribed_def)
next
  case (Unsubscribe c' v)
  with assms show ?thesis
    by (cases "toString v") (auto simp add: subscribed_def)
next
  case (Disconnect c')
  with assms show ?thesis by (auto simp add: subscribed_def)
next
  case (Publish ev t' d x)
  with assms show ?thesis by (auto simp add: subscribed_def)
qed

lemma run_keeps_isolated:
  assumes "\<not> list_ex (subscribes_to c t) as" and "\<not> subscribed s c t"
    and "list_all (\<lambda>p. collection_of p \<noteq> Str t) (delivered s c)"
  shows "\<not> subscribed (run as s) c t \<and>
         list_all (\<lambda>p. collection_of p \<noteq> Str t) (delivered (run as s) c)"
  using assms
proof (induction as arbitrary: s)
  case Nil
  then show ?case by simp
next
  case (Cons a as)
  from Cons.prems have a: "\<not> subscribes_to c t a" and as: "\<not> list_ex (subscribes_to c t) as"
    by simp_all
  from act_keeps_isolated [OF a Cons.prems(2,3)]
  have "\<not> subscribed (act a s) c t"
    and "list_all (\<lambda>p. collection_of p \<noteq> Str t) (delivered (act a s) c)"
    by simp_all
  with Cons.IH [OF as] show ?case by simp
qed

lemma act_keeps_closed:
  assumes "\<not> subscribes c a" and "\<forall>room. c \<notin> rooms s room"
  shows "(\<forall>room. c \<notin> rooms (act a s) room) \<and> delivered (act a s) c = delivered s c"
proof (cases a)
  case (Subscribe c' v)
  with assms show ?thesis
    by (cases "toString v") auto
next
  case (Unsubscribe c' v)
  with assms show ?thesis
    by (cases "toString v") auto
next
  case (Disconnect c')
  with assms show ?thesis by auto
next
  case (Publish ev t' d x)
  with assms show ?thesis by (auto simp add: subscribed_def)
qed

lemma run_keeps_closed:
  assumes "\<not> list_ex (subscribes c) as" and "\<forall>room. c \<notin> rooms s room"
  shows "(\<forall>room. c \<notin> rooms (run as s) room) \<and> delivered (run as s) c = delivered s c"
  using assms
proof (induction as arbitrary: s)
  case Nil
  then show ?case by simp
next
  case (Cons a as)
  from Cons.prems have a: "\<not> subscribes c a" and as: "\<not> list_ex (subscribes c) as"
    by simp_all
  from act_keeps_closed [OF a Cons.prems(2)]
  have r: "\<forall>room. c \<notin> rooms (act a s) room" and d: "delivered (act a s) c = delivered s c"
    by simp_all
  from Cons.IH [OF as r] d show ?case by simp
qed

text \<open>
  C7. An emit for a collection reaches exactly the sockets subscribed to that collection
  at that moment, once each, and leaves every other socket's deliveries as they were. In
  any history of the server in which a socket never subscribes to a collection (it may
  subscribe to others), the socket is never subscribed to it and nothing it is sent
  belongs to that collection.
\<close>

theorem fanout_isolation:
  assumes "\<not> list_ex (subscribes_to c t) as"
  shows "delivered (emit_change ev t d x s) c' =
           (if subscribed s c' t then delivered s c' @ [change_event ev t d x]
            else delivered s c') \<and>
         \<not> subscribed (run as new_server) c t \<and>
         list_all (\<lambda>p. collection_of p \<noteq> Str t) (delivered (run as new_server) c)"
proof -
  have "\<not> subscribed new_server c t"
    and "list_all (\<lambda>p. collection_of p \<noteq> Str t) (delivered new_server c)"
    by (simp_all add: new_server_def subscribed_def)
  from run_keeps_isolated [OF assms this] show ?thesis by simp
qed

theorem fanout_isolation_witness:
  "\<not> list_ex (subscribes_to ''A'' ''users'') posts_then_users \<and>
   subscribed (run posts_then_users new_server) ''A'' ''posts'' \<and>
   \<not> subscribed (run posts_then_users new_server) ''A'' ''users'' \<and>
   list_all (\<lambda>p. collection_of p \<noteq> Str ''users'')
     (delivered (run posts_then_users new_server) ''A'') \<and>
   delivered (run posts_then_users new_server) ''A'' = [] \<and>
   delivered (run posts_then_users new_server) ''B'' =
     [change_event ''document-created'' ''users'' ''u1'' (Obj [(''name'', Str ''Ada'')])]"
proof -
  have h: "\<not> list_ex (subscribes_to ''A'' ''users'') posts_then_users"
    by (simp add: posts_then_users_def)
  have "delivered (run posts_then_users new_server) ''A'' = []"
    and "delivered (run posts_then_users new_server) ''B'' =
      [change_event ''document-created'' ''users'' ''u1'' (Obj [(''name'', Str ''Ada'')])]"
    and "subscribed (run posts_then_users new_server) ''A'' ''posts''"
    by (simp_all add: posts_then_users_def new_server_def subscribed_def)
  then show ?thesis
    using h fanout_isolation [OF h] by simp
qed

text \<open>
  C8. Subscribing twice is subscribing once: after two subscribes and one unsubscribe of
  the same collection the socket is not subscribed, and an emit for the collection
  delivers nothing to it. (A name that cannot be made a string subscribes to nothing.)
\<close>

theorem subscribe_idempotent:
  "act (Subscribe c v) (act (Subscribe c v) s) = act (Subscribe c v) s \<and>
   (case toString v of
      Inr t \<Rightarrow>
        \<not> subscribed (act (Unsubscribe c v) (act (Subscribe c v) (act (Subscribe c v) s))) c t \<and>
        delivered
          (emit_change ev t d x
             (act (Unsubscribe c v) (act (Subscribe c v) (act (Subscribe c v) s))))
          c = delivered s c
    | Inl err \<Rightarrow> act (Unsubscribe c v) (act (Subscribe c v) (act (Subscribe c v) s)) = s)"
  by (cases "toString v")
    (simp_all add: act.simps subscribed_def subscribe_to_collection_def
      unsubscribe_from_collection_def join_room_def leave_room_def)

theorem subscribe_idempotent_witness:
  "\<not> subscribed
       (run [Subscribe ''A'' (Str ''users''), Subscribe ''A'' (Str ''users''),
             Unsubscribe ''A'' (Str ''users'')] new_server)
       ''A'' ''users'' \<and>
   delivered
     (run [Subscribe ''A'' (Str ''users''), Subscribe ''A'' (Str ''users''),
           Unsubscribe ''A'' (Str ''users''),
           Publish ''document-updated'' ''users'' ''u1'' Null] new_server)
     ''A'' = []"
  using subscribe_idempotent [of "''A''" "Str ''users''" new_server "''document-updated''"
      "''u1''" Null]
  by (simp add: new_server_def)

text \<open>
  C9. Once a connection has closed, the socket is subscribed to nothing, an emit
  delivers nothing to it, and nothing that other sockets and routes do afterwards
  changes that.
\<close>

theorem closed_connection_receives_nothing:
  assumes "\<not> list_ex (subscribes c) as"
  shows "\<not> subscribed (disconnect c s) c t \<and>
         delivered (emit_change ev t d x (disconnect c s)) c = delivered s c \<and>
         \<not> subscribed (run as (disconnect c s)) c t \<and>
         delivered (run as (disconnect c s)) c = delivered s c"
proof -
  have closed: "\<forall>room. c \<notin> rooms (disconnect c s) room"
    by simp
  from run_keeps_closed [OF assms closed]
  have "\<forall>room. c \<notin> rooms (run as (disconnect c s)) room"
    and "delivered (run as (disconnect c s)) c = delivered s c"
    by simp_all
  then show ?thesis by (simp add: subscribed_def)
qed

theorem closed_connection_receives_nothing_witness:
  "\<not> list_ex (subscribes ''A'') others_carry_on \<and>
   subscribed (act (Subscribe ''A'' (Str ''messages'')) new_server) ''A'' ''messages'' \<and>
   \<not> subscribed
       (disconnect ''A'' (act (Subscribe ''A'' (Str ''messages'')) new_server))
       ''A'' ''messages'' \<and>
   delivered
     (emit_change ''document-created'' ''messages'' ''m1'' Null
        (disconnect ''A'' (act (Subscribe ''A'' (Str ''messages'')) new_server)))
     ''A'' = [] \<and>
   delivered
     (run others_carry_on
        (disconnect ''A'' (act (Subscribe ''A'' (Str ''messages'')) new_server)))
     ''A'' = [] \<and>
   delivered
     (run others_carry_on
        (disconnect ''A'' (act (Subscribe ''A'' (Str ''messages'')) new_server)))
     ''B'' = [change_event ''document-created'' ''messages'' ''m1'' (Obj [(''text'', Str ''hi'')])]"
proof -
  have h: "\<not> list_ex (subscribes ''A'') others_carry_on"
    by (simp add: others_carry_on_def)
  have "subscribed (act (Subscribe ''A'' (Str ''messages'')) new_server) ''A'' ''messages''"
    and "delivered
     (run others_carry_on
        (disconnect ''A'' (act (Subscribe ''A'' (Str ''messages'')) new_server)))
     ''B'' = [change_event ''document-created'' ''messages'' ''m1'' (Obj [(''text'', Str ''hi'')])]"
    by (simp_all add: others_carry_on_def new_server_def subscribed_def)
  then show ?thesis
    using h closed_connection_receives_nothing [OF h,
        of "act (Subscribe ''A'' (Str ''messages'')) new_server" "''messages''"
        "''document-created''" "''m1''" Null]
    by (simp add: new_server_def)
qed

section \<open>What reaches the error handler\<close>





text \<open>
  On the create route a write that went through is announced before the 201 is written:
  the sockets subscribed to the collection are sent \<open>document-created\<close>.
\<close>

lemma create_route_publishes:
  "create_document_route live create_request [] True ''users'' None calls_succeed s =
     (Inr (Sent (Num 201)
             (Obj [(''success'', Bool True),
                   (''data'',
                    Obj [(''id'', Str ''k3J9''), (''data'', Obj [(''createdAt'', Str ''t0'')]),
                         (''collection'', Str ''users'')])])),
      emit_change ''document-created'' ''users'' ''k3J9'' (Obj [(''createdAt'', Str ''t0'')]) s)"
  by (simp add: create_document_route_def validateRequest_def create_document_def getDb_def
      created_reply_def calls_succeed_def stored_document_def asyncHandler_def)




end
